theory Spec2Isabelle
  imports Main "HOL-Library.Finite_Map"
begin

section \<open>Python values, exceptions and the outside world\<close>

text \<open>
  The values the client handles: what \<open>json()\<close> can return, what a caller can pass as a
  command or as parameters, and what ends up in a payload. A dict compares by content, the
  order of its keys plays no role, so it is a finite map. A callable is kept with its
  \<open>__name__\<close>, when it has one.
\<close>

datatype pyval =
    PNone
  | PBool bool
  | PInt int
  | PStr string
  | PList "pyval list"
  | PDict "(string, pyval) fmap"
  | PCallable "string option"

text \<open>
  The exceptions of the model. \<open>EvalError\<close> stands for whatever \<open>eval\<close> raises on a text
  (a syntax error, a name error, ...); \<open>TransportError\<close> for whatever the HTTP library raises
  (connection refused, a body that is not JSON, a payload that does not serialise).
\<close>

datatype exn = AttributeError | TypeError | EvalError | TransportError

datatype http_method = POST | PUT

record request =
  req_method :: http_method
  req_url :: string
  req_headers :: "(string \<times> string) list"
  req_json :: pyval

text \<open>
  What a run does to the outside: the requests it hands to the HTTP library and the values
  it pretty-prints, in order. The network (and the host program behind it) is a state of
  any type \<open>'n\<close>; the function \<open>send\<close> that every operation takes answers one request in a
  network state with the parsed JSON body or an exception, and the next network state.
\<close>

datatype event = Request request | Echo pyval

record 'n world =
  network :: 'n
  events :: "event list"

type_synonym 'n transport = "'n \<Rightarrow> request \<Rightarrow> (exn + pyval) \<times> 'n"

definition requests_call :: "'n transport \<Rightarrow> request \<Rightarrow> 'n world \<Rightarrow> (exn + pyval) \<times> 'n world" where
  "requests_call send req w =
     (case send (network w) req of
        (reply, n') \<Rightarrow> (reply, w\<lparr>network := n', events := events w @ [Request req]\<rparr>))"

text \<open>\<open>requests.post(url, json=payload).json()\<close>\<close>

definition requests_post :: "'n transport \<Rightarrow> string \<Rightarrow> pyval \<Rightarrow> 'n world \<Rightarrow> (exn + pyval) \<times> 'n world" where
  "requests_post send url payload w =
     requests_call send \<lparr>req_method = POST, req_url = url, req_headers = [], req_json = payload\<rparr> w"

text \<open>\<open>requests.put(url, json=payload, headers=headers).json()\<close>\<close>

definition requests_put ::
  "'n transport \<Rightarrow> string \<Rightarrow> pyval \<Rightarrow> (string \<times> string) list \<Rightarrow> 'n world \<Rightarrow> (exn + pyval) \<times> 'n world" where
  "requests_put send url payload hs w =
     requests_call send \<lparr>req_method = PUT, req_url = url, req_headers = hs, req_json = payload\<rparr> w"

text \<open>\<open>pprint.pprint(v)\<close>\<close>

definition pprint :: "pyval \<Rightarrow> 'n world \<Rightarrow> 'n world" where
  "pprint v w = w\<lparr>events := events w @ [Echo v]\<rparr>"

fun requests_of :: "event list \<Rightarrow> request list" where
  "requests_of [] = []"
| "requests_of (Request r # es) = r # requests_of es"
| "requests_of (Echo v # es) = requests_of es"

fun echoes_of :: "event list \<Rightarrow> pyval list" where
  "echoes_of [] = []"
| "echoes_of (Request r # es) = echoes_of es"
| "echoes_of (Echo v # es) = v # echoes_of es"

subsection \<open>Builtins\<close>

text \<open>\<open>callable(x)\<close> and \<open>x.__name__\<close>\<close>

fun callable :: "pyval \<Rightarrow> bool" where
  "callable (PCallable n) = True"
| "callable v = False"

fun py_name :: "pyval \<Rightarrow> exn + pyval" where
  "py_name (PCallable (Some n)) = Inr (PStr n)"
| "py_name v = Inl AttributeError"

text \<open>\<open>x.get(key)\<close>: only a dict has the method; a missing key gives \<open>None\<close>.\<close>

fun py_get :: "pyval \<Rightarrow> string \<Rightarrow> exn + pyval" where
  "py_get (PDict d) k = Inr (case fmlookup d k of Some v \<Rightarrow> v | None \<Rightarrow> PNone)"
| "py_get v k = Inl AttributeError"

text \<open>
  \<open>eval(x)\<close>: a type error unless \<open>x\<close> is a text. What Python makes of a text is the
  parameter \<open>ev\<close> (\<open>None\<close>: it raises), taken as a function of the text alone.
\<close>

fun py_eval :: "(string \<Rightarrow> pyval option) \<Rightarrow> pyval \<Rightarrow> exn + pyval" where
  "py_eval ev (PStr s) = (case ev s of Some v \<Rightarrow> Inr v | None \<Rightarrow> Inl EvalError)"
| "py_eval ev v = Inl TypeError"

text \<open>\<open>x in names\<close> for a list of strings: only an equal string is a member.\<close>

fun py_in :: "pyval \<Rightarrow> string list \<Rightarrow> bool" where
  "py_in (PStr s) names = (s \<in> set names)"
| "py_in v names = False"

text \<open>\<open>"%s" % n\<close> for an integer: its decimal digits.\<close>

definition digit_char :: "nat \<Rightarrow> char" where
  "digit_char d = ''0123456789'' ! d"

function str_nat :: "nat \<Rightarrow> string" where
  "str_nat n = (if n < 10 then [digit_char n] else str_nat (n div 10) @ [digit_char (n mod 10)])"
  by pat_completeness auto
termination
  by (relation "measure id") auto

declare str_nat.simps [simp del]

definition str_int :: "int \<Rightarrow> string" where
  "str_int i = (if i < 0 then CHR ''-'' # str_nat (nat (- i)) else str_nat (nat i))"

section \<open>The constants module\<close>

text \<open>
  \<open>client.py\<close> imports \<open>HostPrograms\<close>, \<open>Ports\<close> and \<open>ServerCommands\<close> from a constants
  module that is not among the sources, so their values are a parameter of the model.
  Of \<open>ServerCommands\<close> the client uses only the names of its attributes.
\<close>

record constants =
  HostPrograms_blender :: string
  HostPrograms_maya :: string
  HostPrograms_houdini :: string
  HostPrograms_unreal :: string
  Ports_blender :: int
  Ports_maya :: int
  Ports_houdini :: int
  Ports_unreal :: int
  ServerCommands_names :: "string list"

text \<open>
  The names \<open>dir\<close> lists for every class of Python 3, whatever the class declares.
\<close>

definition class_attribute_names :: "string list" where
  "class_attribute_names =
     [''__class__'', ''__delattr__'', ''__dict__'', ''__dir__'', ''__doc__'', ''__eq__'',
      ''__format__'', ''__ge__'', ''__getattribute__'', ''__gt__'', ''__hash__'', ''__init__'',
      ''__init_subclass__'', ''__le__'', ''__lt__'', ''__module__'', ''__ne__'', ''__new__'',
      ''__reduce__'', ''__reduce_ex__'', ''__repr__'', ''__setattr__'', ''__sizeof__'',
      ''__str__'', ''__subclasshook__'', ''__weakref__'']"

text \<open>
  \<open>dir(ServerCommands)\<close>: the attributes the class declares and the ones every class has.
  The client only tests membership, so the order is left as it comes.
\<close>

definition dir_ServerCommands :: "constants \<Rightarrow> string list" where
  "dir_ServerCommands K = ServerCommands_names K @ class_attribute_names"

section \<open>Client\<close>

record client =
  host_address :: string
  port :: int
  echo_execution :: bool
  echo_payload :: bool
  host_program :: "string option"

definition Client_init :: client where
  "Client_init =
     \<lparr>host_address = ''127.0.0.1'', port = 65500, echo_execution = True, echo_payload = True,
      host_program = None\<rparr>"



definition Client_create_payload :: "pyval \<Rightarrow> pyval \<Rightarrow> pyval" where
  "Client_create_payload command parameters =
     PDict (fmap_of_list [(''FunctionName'', command), (''Parameters'', parameters)])"

text \<open>
  \<open>Client.execute\<close>. The result is the value the call returns, or the exception it raises.
  The last statement of the body is the comment \<open>#return response\<close>, so a run that reaches
  the end returns \<open>None\<close>.
\<close>

definition Client_execute ::
  "'n transport \<Rightarrow> 'a client_scheme \<Rightarrow> pyval \<Rightarrow> pyval \<Rightarrow> 'n world \<Rightarrow> (exn + pyval) \<times> 'n world" where
  "Client_execute send c command parameters w =
     (case (if callable command then py_name command else Inr command) of
        Inl e \<Rightarrow> (Inl e, w)
      | Inr command' \<Rightarrow>
          (let url = ''http://'' @ host_address c @ '':'' @ str_int (port c);
               payload = Client_create_payload command' parameters
           in case requests_post send url payload w of
                (Inl e, w1) \<Rightarrow> (Inl e, w1)
              | (Inr response, w1) \<Rightarrow>
                  (let w2 = (if echo_payload c then pprint payload w1 else w1);
                       w3 = (if echo_execution c then pprint response w2 else w2)
                   in (Inr PNone, w3))))"

text \<open>
  \<open>Client.is_host_online\<close>, for a client whose \<open>execute\<close> is \<open>Client.execute\<close> (the base
  client and the Blender, Maya and Houdini clients).
\<close>

definition Client_is_host_online :: "'n transport \<Rightarrow> 'a client_scheme \<Rightarrow> 'n world \<Rightarrow> (exn + pyval) \<times> 'n world" where
  "Client_is_host_online send c w =
     (case Client_execute send c (PStr ''is_online'') (PDict fmempty) w of
        (Inl e, w1) \<Rightarrow> (Inl e, w1)
      | (Inr response, w1) \<Rightarrow> (py_get response ''Success'', w1))"

definition BlenderClient_init :: "constants \<Rightarrow> client" where
  "BlenderClient_init K =
     Client_init\<lparr>host_program := Some (HostPrograms_blender K), port := Ports_blender K\<rparr>"

definition MayaClient_init :: "constants \<Rightarrow> client" where
  "MayaClient_init K =
     Client_init\<lparr>host_program := Some (HostPrograms_maya K), port := Ports_maya K\<rparr>"

definition HoudiniClient_init :: "constants \<Rightarrow> client" where
  "HoudiniClient_init K =
     Client_init\<lparr>host_program := Some (HostPrograms_houdini K), port := Ports_houdini K\<rparr>"

section \<open>UnrealClient\<close>

record unreal_client = client +
  command_object_path :: string
  server_command_object_path :: string
  headers :: "(string \<times> string) list"

definition UnrealClient_init :: "constants \<Rightarrow> unreal_client" where
  "UnrealClient_init K =
     \<lparr>host_address = ''127.0.0.1'', port = Ports_unreal K, echo_execution = True,
      echo_payload = True, host_program = Some (HostPrograms_unreal K),
      command_object_path = ''/Engine/PythonTypes.Default__SkyHookCommands'',
      server_command_object_path = ''/Engine/PythonTypes.Default__SkyHookServerCommands'',
      headers = [(''Content-type'', ''application/json''), (''Accept'', ''text/plain'')]\<rparr>"


definition UnrealClient_create_payload :: "pyval \<Rightarrow> pyval \<Rightarrow> string \<Rightarrow> pyval" where
  "UnrealClient_create_payload command parameters object_path =
     PDict (fmap_of_list
       [(''ObjectPath'', PStr object_path),
        (''FunctionName'', command),
        (''Parameters'', parameters),
        (''GenerateTransaction'', PBool True)])"

text \<open>
  The expression under \<open>try\<close> in \<open>__get_response\<close>:
  \<open>eval(response.get("ReturnValue"))\<close>, with the exception it may raise.
\<close>

definition eval_return_value :: "(string \<Rightarrow> pyval option) \<Rightarrow> pyval \<Rightarrow> exn + pyval" where
  "eval_return_value ev response =
     (case py_get response ''ReturnValue'' of
        Inl e \<Rightarrow> Inl e
      | Inr text \<Rightarrow> py_eval ev text)"

text \<open>
  \<open>UnrealClient.__get_response\<close>. The request is made outside the \<open>try\<close>, so what it
  raises leaves the method; the bare \<open>except\<close> swallows whatever the coercion raises.
\<close>

definition UnrealClient_get_response ::
  "'n transport \<Rightarrow> (string \<Rightarrow> pyval option) \<Rightarrow> unreal_client \<Rightarrow> string \<Rightarrow> 'n world
     \<Rightarrow> (exn + pyval) \<times> 'n world" where
  "UnrealClient_get_response send ev c object_path w =
     (let url = ''http://'' @ host_address c @ '':'' @ str_int (port c) @ ''/remote/object/call'';
          payload = UnrealClient_create_payload (PStr ''get_reply'') (PDict fmempty) object_path
      in case requests_put send url payload (headers c) w of
           (Inl e, w1) \<Rightarrow> (Inl e, w1)
         | (Inr response, w1) \<Rightarrow>
             (case eval_return_value ev response of
                Inr return_value \<Rightarrow>
                  (Inr (PDict (fmap_of_list [(''ReturnValue'', return_value)])), w1)
              | Inl e \<Rightarrow> (Inr response, w1)))"

text \<open>
  \<open>UnrealClient.execute\<close>. The parsed body of the first reply is dropped; the two unused
  flags \<open>function\<close> and \<open>property\<close> are left out.
\<close>

definition UnrealClient_execute ::
  "constants \<Rightarrow> 'n transport \<Rightarrow> (string \<Rightarrow> pyval option) \<Rightarrow> unreal_client \<Rightarrow> pyval \<Rightarrow> pyval
     \<Rightarrow> 'n world \<Rightarrow> (exn + pyval) \<times> 'n world" where
  "UnrealClient_execute K send ev c command parameters w =
     (let url = ''http://'' @ host_address c @ '':'' @ str_int (port c) @ ''/remote/object/call'';
          (payload, used_object_path) =
            (if py_in command (dir_ServerCommands K)
             then (UnrealClient_create_payload command parameters (server_command_object_path c),
                   server_command_object_path c)
             else (UnrealClient_create_payload command parameters (command_object_path c),
                   command_object_path c))
      in case requests_put send url payload (headers c) w of
           (Inl e, w1) \<Rightarrow> (Inl e, w1)
         | (Inr first_reply, w1) \<Rightarrow>
             (case UnrealClient_get_response send ev c used_object_path w1 of
                (Inl e, w2) \<Rightarrow> (Inl e, w2)
              | (Inr response, w2) \<Rightarrow>
                  (let w3 = (if echo_payload c then pprint payload w2 else w2);
                       w4 = (if echo_execution c then pprint response w3 else w3)
                   in (Inr response, w4))))"

text \<open>
  \<open>is_host_online\<close> on an \<open>UnrealClient\<close>: the inherited method, with \<open>self.execute\<close> the
  override (called with its two optional flags left out).
\<close>

definition UnrealClient_is_host_online ::
  "constants \<Rightarrow> 'n transport \<Rightarrow> (string \<Rightarrow> pyval option) \<Rightarrow> unreal_client \<Rightarrow> 'n world
     \<Rightarrow> (exn + pyval) \<times> 'n world" where
  "UnrealClient_is_host_online K send ev c w =
     (case UnrealClient_execute K send ev c (PStr ''is_online'') (PDict fmempty) w of
        (Inl e, w1) \<Rightarrow> (Inl e, w1)
      | (Inr response, w1) \<Rightarrow> (py_get response ''Success'', w1))"

section \<open>Reading a run\<close>

text \<open>The requests a run from \<open>w\<close> to \<open>w'\<close> has handed to the HTTP library.\<close>

definition new_requests :: "'n world \<Rightarrow> 'n world \<Rightarrow> request list" where
  "new_requests w w' = drop (length (requests_of (events w))) (requests_of (events w'))"

definition new_echoes :: "'n world \<Rightarrow> 'n world \<Rightarrow> pyval list" where
  "new_echoes w w' = drop (length (echoes_of (events w))) (echoes_of (events w'))"

text \<open>The object path each of these requests is addressed to.\<close>

definition object_paths_used :: "'n world \<Rightarrow> 'n world \<Rightarrow> (exn + pyval) list" where
  "object_paths_used w w' = map (\<lambda>r. py_get (req_json r) ''ObjectPath'') (new_requests w w')"



section \<open>Sample data\<close>

text \<open>
  Values to run the model on. The constants stand in for the module that is not among the
  sources; the host answers every request with the same JSON body, or with an exception.
\<close>

definition sample_constants :: constants where
  "sample_constants =
     \<lparr>HostPrograms_blender = ''blender'', HostPrograms_maya = ''maya'',
      HostPrograms_houdini = ''houdini'', HostPrograms_unreal = ''unreal'',
      Ports_blender = 65504, Ports_maya = 65501, Ports_houdini = 65502, Ports_unreal = 30010,
      ServerCommands_names = [''SKY_SHUTDOWN'', ''SKY_LS'', ''SKY_RELOAD_MODULES'']\<rparr>"

definition replying_host :: "pyval \<Rightarrow> unit transport" where
  "replying_host body n req = (Inr body, n)"

definition offline_host :: "unit transport" where
  "offline_host n req = (Inl TransportError, n)"

definition fresh_world :: "unit world" where
  "fresh_world = \<lparr>network = (), events = []\<rparr>"

text \<open>
  An evaluator to stand for \<open>eval\<close> in a run: it reads the literals made of decimal
  integers, quoted strings without escapes, \<open>None\<close>, \<open>True\<close>, \<open>False\<close> and lists of
  these, as Python does, and rejects every other text.
\<close>

datatype token = LBRACK | RBRACK | COMMA | ATOM pyval

definition is_digit :: "char \<Rightarrow> bool" where
  "is_digit c = (c \<in> set ''0123456789'')"

definition is_letter :: "char \<Rightarrow> bool" where
  "is_letter c = (c \<in> set ''abcdefghijklmnopqrstuvwxyzABCDEFGHIJKLMNOPQRSTUVWXYZ_'')"

definition digit_value :: "char \<Rightarrow> nat" where
  "digit_value c = length (takeWhile (\<lambda>d. d \<noteq> c) ''0123456789'')"

definition digits_value :: "string \<Rightarrow> nat" where
  "digits_value ds = foldl (\<lambda>n d. 10 * n + digit_value d) 0 ds"

definition number_token :: "string \<Rightarrow> token option" where
  "number_token ds =
     (if ds = [] \<or> (hd ds = CHR ''0'' \<and> tl ds \<noteq> []) then None
      else Some (ATOM (PInt (int (digits_value ds)))))"

definition word_token :: "string \<Rightarrow> token option" where
  "word_token word =
     (if word = ''None'' then Some (ATOM PNone)
      else if word = ''True'' then Some (ATOM (PBool True))
      else if word = ''False'' then Some (ATOM (PBool False))
      else None)"

definition cons_token :: "token option \<Rightarrow> token list option \<Rightarrow> token list option" where
  "cons_token t ts = (case t of None \<Rightarrow> None | Some x \<Rightarrow> map_option (Cons x) ts)"

function tokenize :: "string \<Rightarrow> token list option" where
  "tokenize [] = Some []"
| "tokenize (c # cs) =
     (if c = CHR '' '' then tokenize cs
      else if c = CHR ''['' then cons_token (Some LBRACK) (tokenize cs)
      else if c = CHR '']'' then cons_token (Some RBRACK) (tokenize cs)
      else if c = CHR '','' then cons_token (Some COMMA) (tokenize cs)
      else if is_digit c then
        cons_token (number_token (c # takeWhile is_digit cs)) (tokenize (dropWhile is_digit cs))
      else if is_letter c then
        cons_token (word_token (c # takeWhile is_letter cs)) (tokenize (dropWhile is_letter cs))
      else if c = CHR 0x27 \<or> c = CHR 0x22 then
        (if dropWhile (\<lambda>x. x \<noteq> c) cs = [] \<or> CHR 0x5C \<in> set (takeWhile (\<lambda>x. x \<noteq> c) cs) then None
         else cons_token (Some (ATOM (PStr (takeWhile (\<lambda>x. x \<noteq> c) cs))))
                (tokenize (tl (dropWhile (\<lambda>x. x \<noteq> c) cs))))
      else None)"
  by pat_completeness auto
termination
proof (relation "measure length")
  show "wf (measure length)" by simp
next
  fix c :: char and cs :: string
  have a: "length (dropWhile P cs) \<le> length cs" for P :: "char \<Rightarrow> bool"
    by (rule length_dropWhile_le)
  show "(dropWhile is_digit cs, c # cs) \<in> measure length"
    using a [of is_digit] by simp
  show "(dropWhile is_letter cs, c # cs) \<in> measure length"
    using a [of is_letter] by simp
  show "(tl (dropWhile (\<lambda>x. x \<noteq> c) cs), c # cs) \<in> measure length"
    using a [of "\<lambda>x. x \<noteq> c"] by simp
qed simp_all

declare tokenize.simps [simp del]

fun parse_value :: "nat \<Rightarrow> token list \<Rightarrow> (pyval \<times> token list) option"
  and parse_items :: "nat \<Rightarrow> token list \<Rightarrow> (pyval list \<times> token list) option" where
  "parse_value 0 ts = None"
| "parse_value (Suc n) (ATOM v # ts) = Some (v, ts)"
| "parse_value (Suc n) (LBRACK # RBRACK # ts) = Some (PList [], ts)"
| "parse_value (Suc n) (LBRACK # ts) =
     (case parse_items n ts of
        None \<Rightarrow> None
      | Some (vs, ts') \<Rightarrow> Some (PList vs, ts'))"
| "parse_value (Suc n) ts = None"
| "parse_items 0 ts = None"
| "parse_items (Suc n) ts =
     (case parse_value n ts of
        None \<Rightarrow> None
      | Some (v, RBRACK # ts') \<Rightarrow> Some ([v], ts')
      | Some (v, COMMA # RBRACK # ts') \<Rightarrow> Some ([v], ts')
      | Some (v, COMMA # ts') \<Rightarrow>
          (case parse_items n ts' of
             None \<Rightarrow> None
           | Some (vs, ts'') \<Rightarrow> Some (v # vs, ts''))
      | Some (v, ts') \<Rightarrow> None)"

definition literal_eval :: "string \<Rightarrow> pyval option" where
  "literal_eval s =
     (case tokenize s of
        None \<Rightarrow> None
      | Some ts \<Rightarrow>
          (case parse_value (2 * length ts + 1) ts of
             Some (v, []) \<Rightarrow> Some v
           | _ \<Rightarrow> None))"


section \<open>Facts about runs\<close>

lemma requests_of_append: "requests_of (xs @ ys) = requests_of xs @ requests_of ys"
  by (induction xs rule: requests_of.induct) simp_all

lemma echoes_of_append: "echoes_of (xs @ ys) = echoes_of xs @ echoes_of ys"
  by (induction xs rule: echoes_of.induct) simp_all

lemma requests_call_eq:
  "requests_call send req w =
     (fst (send (network w) req),
      w\<lparr>network := snd (send (network w) req), events := events w @ [Request req]\<rparr>)"
  by (simp add: requests_call_def split: prod.splits)

lemma get_response_events:
  "events (snd (UnrealClient_get_response send ev c object_path w)) =
     events w @ [Request \<lparr>req_method = PUT,
        req_url = ''http://'' @ host_address c @ '':'' @ str_int (port c) @ ''/remote/object/call'',
        req_headers = headers c,
        req_json = UnrealClient_create_payload (PStr ''get_reply'') (PDict fmempty) object_path\<rparr>]"
  by (simp add: UnrealClient_get_response_def requests_put_def requests_call_eq Let_def
           split: sum.splits)

lemma get_response_eventsD:
  "UnrealClient_get_response send ev c object_path w = (r, w') \<Longrightarrow>
   events w' =
     events w @ [Request \<lparr>req_method = PUT,
        req_url = ''http://'' @ host_address c @ '':'' @ str_int (port c) @ ''/remote/object/call'',
        req_headers = headers c,
        req_json = UnrealClient_create_payload (PStr ''get_reply'') (PDict fmempty) object_path\<rparr>]"
  using get_response_events [of send ev c object_path w] by simp

lemma execute_new_requests:
  "new_requests w (snd (UnrealClient_execute K send ev c command parameters w)) =
     (let url = ''http://'' @ host_address c @ '':'' @ str_int (port c) @ ''/remote/object/call'';
          path = (if py_in command (dir_ServerCommands K)
                  then server_command_object_path c else command_object_path c);
          invocation = \<lparr>req_method = PUT, req_url = url, req_headers = headers c,
             req_json = UnrealClient_create_payload command parameters path\<rparr>;
          get_reply = \<lparr>req_method = PUT, req_url = url, req_headers = headers c,
             req_json = UnrealClient_create_payload (PStr ''get_reply'') (PDict fmempty) path\<rparr>
      in case fst (send (network w) invocation) of
           Inl e \<Rightarrow> [invocation]
         | Inr v \<Rightarrow> [invocation, get_reply])"
  by (auto simp: UnrealClient_execute_def new_requests_def requests_put_def requests_call_eq Let_def
        pprint_def requests_of_append
           dest!: get_response_eventsD
           split: sum.splits prod.splits)

lemma create_payload_fields:
  "py_get (UnrealClient_create_payload command parameters path) ''ObjectPath'' = Inr (PStr path)"
  "py_get (UnrealClient_create_payload command parameters path) ''FunctionName'' = Inr command"
  "py_get (UnrealClient_create_payload command parameters path) ''Parameters'' = Inr parameters"
  "py_get (UnrealClient_create_payload command parameters path) ''GenerateTransaction'' = Inr (PBool True)"
  by (simp_all add: UnrealClient_create_payload_def fmlookup_of_list)

lemma str_nat_digit: "n < 10 \<Longrightarrow> str_nat n = [digit_char n]"
  by (simp add: str_nat.simps)

lemma str_nat_more: "10 \<le> n \<Longrightarrow> str_nat n = str_nat (n div 10) @ [digit_char (n mod 10)]"
  by (subst str_nat.simps) simp


lemma str_int_65500: "str_int 65500 = ''65500''"
  by (simp add: str_int_def str_nat_digit str_nat_more digit_char_def)

lemma execute_object_paths:
  "set (object_paths_used w (snd (UnrealClient_execute K send ev c command parameters w))) =
     {Inr (PStr (if py_in command (dir_ServerCommands K)
                 then server_command_object_path c else command_object_path c))}"
  by (simp add: object_paths_used_def execute_new_requests Let_def create_payload_fields
        split: sum.splits)


lemma Client_execute_resolved:
  assumes "(if callable command then py_name command else Inr command) = Inr name"
  shows "Client_execute send c command parameters w =
     (let url = ''http://'' @ host_address c @ '':'' @ str_int (port c);
          payload = Client_create_payload name parameters;
          req = \<lparr>req_method = POST, req_url = url, req_headers = [], req_json = payload\<rparr>;
          w1 = w\<lparr>network := snd (send (network w) req), events := events w @ [Request req]\<rparr>
      in case fst (send (network w) req) of
           Inl e \<Rightarrow> (Inl e, w1)
         | Inr response \<Rightarrow>
             (Inr PNone,
              w1\<lparr>events := events w1 @ (if echo_payload c then [Echo payload] else [])
                               @ (if echo_execution c then [Echo response] else [])\<rparr>))"
  using assms
  by (simp add: Client_execute_def requests_post_def requests_call_eq Let_def pprint_def
        split: sum.splits)

lemma Client_execute_unresolved:
  assumes "(if callable command then py_name command else Inr command) = Inl e"
  shows "Client_execute send c command parameters w = (Inl e, w)"
  using assms by (simp add: Client_execute_def)

lemma Client_execute_result:
  "fst (Client_execute send c command parameters w) = Inr v \<Longrightarrow> v = PNone"
  by (cases "if callable command then py_name command else Inr command")
     (auto simp: Client_execute_unresolved Client_execute_resolved Let_def split: sum.splits)

lemma Client_is_host_online_never_returns:
  "\<exists>e. fst (Client_is_host_online send c w) = Inl e"
proof (cases "Client_execute send c (PStr ''is_online'') (PDict fmempty) w")
  case (Pair r w1)
  show ?thesis
  proof (cases r)
    case (Inl e)
    with Pair show ?thesis
      by (simp add: Client_is_host_online_def)
  next
    case (Inr v)
    with Pair have "v = PNone"
      using Client_execute_result [of send c "PStr ''is_online''" "PDict fmempty" w v] by simp
    with Pair Inr show ?thesis
      by (simp add: Client_is_host_online_def)
  qed
qed

section \<open>The direct protocol\<close>

text \<open>
  C4. For every command and every parameters value, the payload the base client builds is
  the mapping with the two entries "FunctionName": command and "Parameters": parameters
  and nothing else; written with the keys in the other order it is the same mapping.
\<close>

theorem Client_create_payload_exact:
  "Client_create_payload command parameters =
     PDict (fmupd ''Parameters'' parameters (fmupd ''FunctionName'' command fmempty))
   \<and> Client_create_payload command parameters =
     PDict (fmupd ''FunctionName'' command (fmupd ''Parameters'' parameters fmempty))
   \<and> py_get (Client_create_payload command parameters) ''FunctionName'' = Inr command
   \<and> py_get (Client_create_payload command parameters) ''Parameters'' = Inr parameters
   \<and> (\<exists>d. Client_create_payload command parameters = PDict d
          \<and> fmdom d = {|''FunctionName'', ''Parameters''|})"
proof -
  let ?kvs = "[(''FunctionName'', command), (''Parameters'', parameters)]"
  have a: "fmap_of_list ?kvs
             = fmupd ''Parameters'' parameters (fmupd ''FunctionName'' command fmempty)"
    by (rule fmap_ext) auto
  have b: "fmap_of_list ?kvs
             = fmupd ''FunctionName'' command (fmupd ''Parameters'' parameters fmempty)"
    by (rule fmap_ext) auto
  have c: "py_get (PDict (fmap_of_list ?kvs)) ''FunctionName'' = Inr command"
    by (simp add: fmlookup_of_list)
  have d: "py_get (PDict (fmap_of_list ?kvs)) ''Parameters'' = Inr parameters"
    by (simp add: fmlookup_of_list)
  have e: "fmdom (fmap_of_list ?kvs) = {|''FunctionName'', ''Parameters''|}"
    by auto
  show ?thesis
    unfolding Client_create_payload_def using a b c d e by blast
qed

text \<open>
  C6. The base client's \<open>execute\<close> never returns a value other than \<open>None\<close>, whatever the
  command, the parameters and the host. When the command resolves to a name and the POST is
  answered with a response, the call returns \<open>None\<close>, having echoed the payload when
  \<open>echo_payload\<close> is set and then the response when \<open>echo_execution\<close> is set: the
  response is computed and shown but not handed back.
\<close>

theorem Client_execute_returns_nothing:
  "(\<forall>v. fst (Client_execute send c command parameters w) = Inr v \<longrightarrow> v = PNone)
   \<and> (\<forall>name response.
        (if callable command then py_name command else Inr command) = Inr name
        \<and> fst (requests_post send (''http://'' @ host_address c @ '':'' @ str_int (port c))
                 (Client_create_payload name parameters) w) = Inr response
        \<longrightarrow> fst (Client_execute send c command parameters w) = Inr PNone
          \<and> new_echoes w (snd (Client_execute send c command parameters w)) =
              (if echo_payload c then [Client_create_payload name parameters] else [])
              @ (if echo_execution c then [response] else []))"
proof (intro conjI allI impI)
  fix v
  assume "fst (Client_execute send c command parameters w) = Inr v"
  then show "v = PNone"
    by (rule Client_execute_result)
next
  fix name response
  assume a: "(if callable command then py_name command else Inr command) = Inr name
        \<and> fst (requests_post send (''http://'' @ host_address c @ '':'' @ str_int (port c))
                 (Client_create_payload name parameters) w) = Inr response"
  then show "fst (Client_execute send c command parameters w) = Inr PNone"
    by (simp add: Client_execute_resolved Let_def requests_post_def requests_call_eq)
  from a show "new_echoes w (snd (Client_execute send c command parameters w)) =
              (if echo_payload c then [Client_create_payload name parameters] else [])
              @ (if echo_execution c then [response] else [])"
    by (simp add: Client_execute_resolved Let_def requests_post_def requests_call_eq
          new_echoes_def echoes_of_append)
qed

theorem Client_execute_returns_nothing_witness:
  "fst (requests_post (replying_host (PDict (fmap_of_list
            [(''ReturnValue'', PList [PStr ''Camera'', PStr ''Cube'']), (''Success'', PBool True)])))
          ''http://127.0.0.1:65500''
          (Client_create_payload (PStr ''get_scene'') (PDict fmempty)) fresh_world)
     = Inr (PDict (fmap_of_list
            [(''ReturnValue'', PList [PStr ''Camera'', PStr ''Cube'']), (''Success'', PBool True)]))
   \<and> fst (Client_execute (replying_host (PDict (fmap_of_list
            [(''ReturnValue'', PList [PStr ''Camera'', PStr ''Cube'']), (''Success'', PBool True)])))
          Client_init (PStr ''get_scene'') (PDict fmempty) fresh_world) = Inr PNone
   \<and> new_echoes fresh_world
        (snd (Client_execute (replying_host (PDict (fmap_of_list
            [(''ReturnValue'', PList [PStr ''Camera'', PStr ''Cube'']), (''Success'', PBool True)])))
          Client_init (PStr ''get_scene'') (PDict fmempty) fresh_world)) =
      [PDict (fmap_of_list [(''FunctionName'', PStr ''get_scene''), (''Parameters'', PDict fmempty)]),
       PDict (fmap_of_list
            [(''ReturnValue'', PList [PStr ''Camera'', PStr ''Cube'']), (''Success'', PBool True)])]"
proof -
  let ?body = "PDict (fmap_of_list
            [(''ReturnValue'', PList [PStr ''Camera'', PStr ''Cube'']), (''Success'', PBool True)])"
  have r: "fst (requests_post (replying_host ?body)
              (''http://'' @ host_address Client_init @ '':'' @ str_int (port Client_init))
              (Client_create_payload (PStr ''get_scene'') (PDict fmempty)) fresh_world) = Inr ?body"
    by (simp add: requests_post_def requests_call_eq replying_host_def)
  have n: "(if callable (PStr ''get_scene'') then py_name (PStr ''get_scene'')
            else Inr (PStr ''get_scene'')) = Inr (PStr ''get_scene'')"
    by simp
  note t = Client_execute_returns_nothing [where send = "replying_host ?body" and c = Client_init
      and command = "PStr ''get_scene''" and parameters = "PDict fmempty" and w = fresh_world,
      THEN conjunct2, THEN spec, THEN spec, THEN mp, OF conjI [OF n r]]
  have u: "''http://'' @ host_address Client_init @ '':'' @ str_int (port Client_init)
             = ''http://127.0.0.1:65500''"
    by (simp add: Client_init_def str_int_65500)
  show ?thesis
    using t r unfolding u
    by (simp add: Client_init_def Client_create_payload_def del: fmap_of_list_simps)
qed



text \<open>
  C5, at the input where the code leaves it. A Blender client asks a host that answers
  \<open>is_online\<close> with Success true. \<open>execute\<close> posts the command and returns \<open>None\<close>, so
  \<open>response.get("Success")\<close> raises an attribute error: \<open>is_host_online\<close> returns
  neither true nor false.
\<close>

theorem is_host_online_raises:
  "fst (Client_is_host_online
          (replying_host (PDict (fmap_of_list
             [(''ReturnValue'', PBool True), (''Success'', PBool True), (''Time'', PStr ''09:43:18'')])))
          (BlenderClient_init sample_constants) fresh_world) = Inl AttributeError
   \<and> new_requests fresh_world (snd (Client_is_host_online
          (replying_host (PDict (fmap_of_list
             [(''ReturnValue'', PBool True), (''Success'', PBool True), (''Time'', PStr ''09:43:18'')])))
          (BlenderClient_init sample_constants) fresh_world)) =
       [\<lparr>req_method = POST, req_url = ''http://127.0.0.1:65504'', req_headers = [],
         req_json = PDict (fmap_of_list
           [(''FunctionName'', PStr ''is_online''), (''Parameters'', PDict fmempty)])\<rparr>]"
proof -
  have p: "str_int 65504 = ''65504''"
    by (simp add: str_int_def str_nat_digit str_nat_more digit_char_def)
  have n: "(if callable (PStr ''is_online'') then py_name (PStr ''is_online'')
            else Inr (PStr ''is_online'')) = Inr (PStr ''is_online'')"
    by simp
  show ?thesis
    by (simp add: Client_is_host_online_def Client_execute_resolved [OF n] Let_def
          replying_host_def BlenderClient_init_def Client_init_def sample_constants_def p
          new_requests_def requests_of_append fresh_world_def Client_create_payload_def
          del: fmap_of_list_simps)
qed

section \<open>The indirection protocol\<close>





section \<open>Which object receives the command\<close>

text \<open>
  C10. The test \<open>command in dir(ServerCommands)\<close> holds for the names the registry class
  declares and for the names every class carries. So, whatever the registry declares,
  \<open>execute\<close> addresses a command named \<open>__init__\<close> or \<open>__doc__\<close> to the server-command
  object path.
\<close>

theorem class_attribute_names_are_server_commands:
  "py_in (PStr name) (dir_ServerCommands K) =
     (name \<in> set (ServerCommands_names K) \<or> name \<in> set class_attribute_names)
   \<and> ''__init__'' \<in> set class_attribute_names
   \<and> ''__doc__'' \<in> set class_attribute_names
   \<and> set (object_paths_used w
        (snd (UnrealClient_execute K send ev c (PStr ''__init__'') parameters w))) =
       {Inr (PStr (server_command_object_path c))}
   \<and> set (object_paths_used w
        (snd (UnrealClient_execute K send ev c (PStr ''__doc__'') parameters w))) =
       {Inr (PStr (server_command_object_path c))}"
proof -
  have a: "''__init__'' \<in> set class_attribute_names"
    by (simp add: class_attribute_names_def)
  have b: "''__doc__'' \<in> set class_attribute_names"
    by (simp add: class_attribute_names_def)
  have c: "py_in (PStr name) (dir_ServerCommands K) =
     (name \<in> set (ServerCommands_names K) \<or> name \<in> set class_attribute_names)" for name
    by (simp add: dir_ServerCommands_def)
  show ?thesis
    using a b c by (simp add: execute_object_paths)
qed

text \<open>
  C1, at the input where the code leaves it. With a registry that declares three server
  commands, none of them \<open>__doc__\<close>, and the default command object path, both requests
  of \<open>execute("__doc__")\<close> go to the server-command object path.
\<close>

theorem doc_is_routed_to_server_commands:
  "''__doc__'' \<notin> set (ServerCommands_names sample_constants)
   \<and> object_paths_used fresh_world
        (snd (UnrealClient_execute sample_constants (replying_host PNone) literal_eval
           (UnrealClient_init sample_constants) (PStr ''__doc__'') (PDict fmempty) fresh_world)) =
       [Inr (PStr ''/Engine/PythonTypes.Default__SkyHookServerCommands''),
        Inr (PStr ''/Engine/PythonTypes.Default__SkyHookServerCommands'')]
   \<and> command_object_path (UnrealClient_init sample_constants) =
       ''/Engine/PythonTypes.Default__SkyHookCommands''"
proof -
  have a: "py_in (PStr ''__doc__'') (dir_ServerCommands sample_constants)"
    by (simp add: dir_ServerCommands_def class_attribute_names_def)
  show ?thesis
    using a
    by (simp add: object_paths_used_def execute_new_requests Let_def create_payload_fields
          UnrealClient_init_def sample_constants_def replying_host_def)
qed

section \<open>Unwrapping the reply\<close>





end
